theory Spec2Isabelle
  imports Main "HOL-Library.Log_Nat"
begin

section \<open>The Python runtime, as far as the metrics agent uses it\<close>

text \<open>
  The agent (\<^verbatim>\<open>scripts/metrics-agent.py\<close>) is a Python script. Strings are modelled as
  \<^typ>\<open>string\<close>, every \<^typ>\<open>char\<close> standing for the code point of the same number
  (U+0000 to U+00FF); Python's \<^verbatim>\<open>int\<close> is \<^typ>\<open>int\<close>; an exception is a value of
  \<open>py_exc\<close>, and a computation that may raise returns \<open>py_exc + 'a\<close> with \<open>Inl\<close>
  for the raised exception.
\<close>

datatype py_exc =
    FileNotFoundError
  | TimeoutExpired
  | OSError
  | ValueError
  | OverflowError
  | Other_Exception string
  | KeyboardInterrupt
  | SystemExit

text \<open>
  \<^verbatim>\<open>except Exception\<close> catches the subclasses of \<^verbatim>\<open>Exception\<close>; \<^verbatim>\<open>KeyboardInterrupt\<close>
  and \<^verbatim>\<open>SystemExit\<close> derive from \<^verbatim>\<open>BaseException\<close> only and are caught by a bare
  \<^verbatim>\<open>except:\<close> alone.
\<close>

fun is_Exception :: "py_exc \<Rightarrow> bool" where
  "is_Exception KeyboardInterrupt = False"
| "is_Exception SystemExit = False"
| "is_Exception _ = True"

definition bind_exc :: "py_exc + 'a \<Rightarrow> ('a \<Rightarrow> py_exc + 'b) \<Rightarrow> py_exc + 'b" where
  "bind_exc m f = (case m of Inl e \<Rightarrow> Inl e | Inr x \<Rightarrow> f x)"

subsection \<open>\<^verbatim>\<open>str.strip\<close> and \<^verbatim>\<open>str.split\<close>\<close>

text \<open>
  \<^verbatim>\<open>str.strip()\<close> removes the characters for which \<^verbatim>\<open>str.isspace\<close> holds; below U+0100
  these are U+0009 to U+000D, U+001C to U+0020, U+0085 and U+00A0.
\<close>

definition isspace :: "char \<Rightarrow> bool" where
  "isspace c = (c \<in> set [CHR 0x09, CHR 0x0A, CHR 0x0B, CHR 0x0C, CHR 0x0D,
                         CHR 0x1C, CHR 0x1D, CHR 0x1E, CHR 0x1F, CHR 0x20,
                         CHR 0x85, CHR 0xA0])"

definition py_strip :: "string \<Rightarrow> string" where
  "py_strip s = rev (dropWhile isspace (rev (dropWhile isspace s)))"

text \<open>
  \<^verbatim>\<open>s.split(sep)\<close> for a separator of one character: the pieces between the occurrences
  of \<open>sep\<close>, empty pieces kept, so the result is never empty (\<^verbatim>\<open>''.split(',') == ['']\<close>)
  and the second case below is never reached.
\<close>

fun py_split :: "char \<Rightarrow> string \<Rightarrow> string list" where
  "py_split sep [] = [[]]"
| "py_split sep (c # cs) =
     (if c = sep then [] # py_split sep cs
      else (case py_split sep cs of
              p # ps \<Rightarrow> (c # p) # ps
            | [] \<Rightarrow> [[c]]))"

subsection \<open>\<^verbatim>\<open>int(str)\<close>\<close>

text \<open>
  \<^verbatim>\<open>int(s)\<close> in base 10 (CPython's \<^verbatim>\<open>PyLong_FromString\<close>): white space around the
  literal is skipped, one sign is allowed, then decimal digits with single underscores
  between digits. Anything else raises \<^verbatim>\<open>ValueError\<close>, and so does a literal of more than
  \<^verbatim>\<open>sys.int_info.default_max_str_digits\<close> (4300) digits. The white space of \<^verbatim>\<open>int\<close> is
  narrower than that of \<^verbatim>\<open>str.strip\<close>: U+001C to U+001F are not skipped.
\<close>

definition digit_val :: "char \<Rightarrow> int option" where
  "digit_val c = map_of (zip ''0123456789'' [0, 1, 2, 3, 4, 5, 6, 7, 8, 9]) c"

definition is_digit :: "char \<Rightarrow> bool" where
  "is_digit c = (digit_val c \<noteq> None)"

definition int_space :: "char \<Rightarrow> bool" where
  "int_space c = (c \<in> set [CHR 0x09, CHR 0x0A, CHR 0x0B, CHR 0x0C, CHR 0x0D, CHR 0x20,
                           CHR 0x85, CHR 0xA0])"

fun double_underscore :: "string \<Rightarrow> bool" where
  "double_underscore (a # b # cs) =
     ((a = CHR ''_'' \<and> b = CHR ''_'') \<or> double_underscore (b # cs))"
| "double_underscore _ = False"

definition valid_literal :: "string \<Rightarrow> bool" where
  "valid_literal body =
     (body \<noteq> [] \<and> hd body \<noteq> CHR ''_'' \<and> last body \<noteq> CHR ''_''
      \<and> \<not> double_underscore body
      \<and> list_all (\<lambda>c. c = CHR ''_'' \<or> is_digit c) body)"

definition digits_of :: "string \<Rightarrow> int list" where
  "digits_of body = map (\<lambda>c. the (digit_val c)) (filter (\<lambda>c. c \<noteq> CHR ''_'') body)"

definition int_max_str_digits :: nat where
  "int_max_str_digits = 4300"

definition py_int :: "string \<Rightarrow> py_exc + int" where
  "py_int s =
     (let s1 = dropWhile int_space s;
          sg = (case s1 of c # r \<Rightarrow> if c = CHR ''-'' then - 1 else 1 | [] \<Rightarrow> 1);
          s2 = (case s1 of c # r \<Rightarrow> if c = CHR ''-'' \<or> c = CHR ''+'' then r else s1
                | [] \<Rightarrow> s1);
          body = rev (dropWhile int_space (rev s2))
      in if valid_literal body \<and> length (digits_of body) \<le> int_max_str_digits
         then Inr (sg * foldl (\<lambda>acc d. 10 * acc + d) 0 (digits_of body))
         else Inl ValueError)"

subsection \<open>Floating point: \<^verbatim>\<open>round(n / d, 1)\<close> and \<^verbatim>\<open>round(x)\<close>\<close>

text \<open>
  A Python \<^verbatim>\<open>float\<close> is an IEEE double. The agent computes floats in one way only,
  \<^verbatim>\<open>round(n / d, 1)\<close> for an \<^verbatim>\<open>int\<close> \<open>n\<close> and \<open>d\<close> one of the powers of two \<open>1024\<close> and
  \<open>1024 ** 3\<close>. True division of two ints is correctly rounded (to nearest, ties to
  even), and as \<open>d\<close> is a power of two the quotient is \<open>rn53 n / d\<close> exactly, where
  \<open>rn53\<close> rounds to 53 significant bits; it raises \<^verbatim>\<open>OverflowError\<close> when that exceeds the
  largest double. \<^verbatim>\<open>round(x, 1)\<close> is the double nearest to the decimal of one fractional
  digit nearest to \<open>x\<close> (ties to even). The result is written \<open>Float_tenths t\<close>: the double
  nearest to \<open>t / 10\<close>. The sign of a zero is not represented.
\<close>

datatype py_number = Int_val int | Float_tenths int

text \<open>The value of a number, in tenths; rounding to the nearest double keeps \<open>\<le>\<close>.\<close>

fun tenths :: "py_number \<Rightarrow> int" where
  "tenths (Int_val i) = 10 * i"
| "tenths (Float_tenths t) = t"

definition num_le :: "py_number \<Rightarrow> py_number \<Rightarrow> bool" where
  "num_le a b = (tenths a \<le> tenths b)"

definition nonzero :: "py_number \<Rightarrow> bool" where
  "nonzero a = (tenths a \<noteq> 0)"

text \<open>The integer nearest to \<open>a / b\<close>, ties to the even one, for \<open>0 < b\<close>.\<close>

definition rhe_div :: "int \<Rightarrow> int \<Rightarrow> int" where
  "rhe_div a b =
     (let q = a div b; r = a mod b
      in if 2 * r < b then q
         else if b < 2 * r then q + 1
         else if even q then q else q + 1)"

definition rn53 :: "int \<Rightarrow> int" where
  "rn53 n =
     (if \<bar>n\<bar> < 2 ^ 53 then n
      else sgn n * (rhe_div \<bar>n\<bar> (2 ^ (nat (bitlen \<bar>n\<bar>) - 53)) * 2 ^ (nat (bitlen \<bar>n\<bar>) - 53)))"

definition round1_quot :: "int \<Rightarrow> int \<Rightarrow> py_exc + py_number" where
  "round1_quot n d =
     (if (2 ^ 1024 - 2 ^ 970) * d \<le> \<bar>n\<bar> then Inl OverflowError
      else Inr (Float_tenths (rhe_div (10 * rn53 n) d)))"

text \<open>\<^verbatim>\<open>round(x)\<close> of a float: the nearest integer, ties to even.\<close>

definition py_round :: "rat \<Rightarrow> int" where
  "py_round x =
     (let f = \<lfloor>x\<rfloor>; d = x - of_int f
      in if d < 1 / 2 then f
         else if 1 / 2 < d then f + 1
         else if even f then f else f + 1)"

section \<open>The resource samplers\<close>

text \<open>
  \<^verbatim>\<open>subprocess.run(..., capture_output=True, text=True, timeout=10)\<close> either raises
  (\<^verbatim>\<open>FileNotFoundError\<close> when the tool is not on the path, \<^verbatim>\<open>TimeoutExpired\<close> after ten
  seconds, or something else) or completes with a return code and the decoded standard
  output.
\<close>

datatype run_outcome = Raised py_exc | Completed int string

subsection \<open>\<^verbatim>\<open>get_gpu_metrics\<close>\<close>

record gpu_metric =
  index :: int
  name :: string
  utilization_percent :: int
  memory_used_gb :: py_number
  memory_total_gb :: py_number
  temperature_c :: int

definition na :: string where
  "na = ''[N/A]''"

text \<open>
  The dictionary built for a line of at least six fields. Its entries are evaluated in the
  order written, and the first conversion that raises ends the evaluation. The caller
  has checked \<open>6 \<le> length parts\<close>, so the indices 0 to 5 are in range.
\<close>

definition gpu_entry :: "string list \<Rightarrow> py_exc + gpu_metric" where
  "gpu_entry parts =
     bind_exc (py_int (parts ! 0)) (\<lambda>idx.
     bind_exc (if parts ! 2 \<noteq> na then py_int (parts ! 2) else Inr 0) (\<lambda>util.
     bind_exc (if parts ! 3 \<noteq> na
               then bind_exc (py_int (parts ! 3)) (\<lambda>n. round1_quot n 1024)
               else Inr (Int_val 0)) (\<lambda>used.
     bind_exc (if parts ! 4 \<noteq> na
               then bind_exc (py_int (parts ! 4)) (\<lambda>n. round1_quot n 1024)
               else Inr (Int_val 0)) (\<lambda>total.
     bind_exc (if parts ! 5 \<noteq> na then py_int (parts ! 5) else Inr 0) (\<lambda>temp.
     Inr \<lparr>index = idx, name = parts ! 1, utilization_percent = util,
          memory_used_gb = used, memory_total_gb = total, temperature_c = temp\<rparr>)))))"

definition line_parts :: "string \<Rightarrow> string list" where
  "line_parts line = map py_strip (py_split (CHR '','') line)"

text \<open>
  The \<^verbatim>\<open>for\<close> loop over the lines, with the list \<^verbatim>\<open>gpus\<close> built so far. It returns the
  list and, when an exception left the loop, that exception: the \<^verbatim>\<open>try\<close> encloses the
  whole loop, so the handler runs after the loop has been abandoned.
\<close>

fun gpu_loop :: "string list \<Rightarrow> gpu_metric list \<Rightarrow> gpu_metric list \<times> py_exc option" where
  "gpu_loop [] gpus = (gpus, None)"
| "gpu_loop (line # rest) gpus =
     (if line \<noteq> [] then
        (if 6 \<le> length (line_parts line) then
           (case gpu_entry (line_parts line) of
              Inl e \<Rightarrow> (gpus, Some e)
            | Inr g \<Rightarrow> gpu_loop rest (gpus @ [g]))
         else gpu_loop rest gpus)
      else gpu_loop rest gpus)"

text \<open>
  The argument is the outcome of running \<^verbatim>\<open>nvidia-smi\<close>. The result is the returned list
  together with the exception whose message the handler printed, if it ran. An exception
  that is not an \<^verbatim>\<open>Exception\<close> passes through \<^verbatim>\<open>except Exception\<close>.
\<close>

definition get_gpu_metrics :: "run_outcome \<Rightarrow> py_exc + gpu_metric list \<times> py_exc option" where
  "get_gpu_metrics r =
     (case r of
        Raised e \<Rightarrow> if is_Exception e then Inr ([], Some e) else Inl e
      | Completed returncode stdout \<Rightarrow>
          if returncode = 0
          then Inr (gpu_loop (py_split (CHR 0x0A) (py_strip stdout)) [])
          else Inr ([], None))"

subsection \<open>\<^verbatim>\<open>get_system_metrics\<close>\<close>

text \<open>
  What one request observes of its host: the clock, the three \<^verbatim>\<open>psutil\<close> queries (each
  may raise) and the outcomes of the two external commands. \<^verbatim>\<open>psutil.cpu_percent\<close> answers
  with a finite float, given here by its exact value; the two usage queries answer with
  byte counts, of which the sampler reads \<^verbatim>\<open>used\<close> and \<^verbatim>\<open>total\<close>.
\<close>

record usage =
  used :: int
  total :: int

record host =
  utcnow_isoformat :: string
  cpu_percent_query :: "py_exc + rat"
  virtual_memory :: "py_exc + usage"
  disk_usage_root :: "py_exc + usage"
  run_nvidia_smi :: run_outcome
  run_docker_ps :: run_outcome

record system_metrics =
  cpu_percent :: int
  ram_used_gb :: py_number
  ram_total_gb :: py_number
  disk_used_gb :: py_number
  disk_total_gb :: py_number

text \<open>There is no \<^verbatim>\<open>try\<close> in this function: the statements run in order until one raises.\<close>

definition get_system_metrics :: "host \<Rightarrow> py_exc + system_metrics" where
  "get_system_metrics h =
     bind_exc (cpu_percent_query h) (\<lambda>cpu.
     bind_exc (virtual_memory h) (\<lambda>mem.
     bind_exc (round1_quot (used mem) (1024 ^ 3)) (\<lambda>ram_used.
     bind_exc (round1_quot (total mem) (1024 ^ 3)) (\<lambda>ram_total.
     bind_exc (disk_usage_root h) (\<lambda>disk.
     bind_exc (round1_quot (used disk) (1024 ^ 3)) (\<lambda>disk_used.
     bind_exc (round1_quot (total disk) (1024 ^ 3)) (\<lambda>disk_total.
     Inr \<lparr>cpu_percent = py_round cpu, ram_used_gb = ram_used, ram_total_gb = ram_total,
          disk_used_gb = disk_used, disk_total_gb = disk_total\<rparr>)))))))"

subsection \<open>\<^verbatim>\<open>get_container_count\<close>\<close>

text \<open>
  The argument is the outcome of running \<^verbatim>\<open>docker ps -q\<close>. The bare \<^verbatim>\<open>except:\<close> catches
  every exception, and the function then falls through to \<^verbatim>\<open>return 0\<close>.
\<close>

definition get_container_count :: "run_outcome \<Rightarrow> py_exc + int" where
  "get_container_count r =
     (case r of
        Raised e \<Rightarrow> Inr 0
      | Completed returncode stdout \<Rightarrow>
          if returncode = 0
          then Inr (int (length (filter (\<lambda>l. l \<noteq> [])
                                   (py_split (CHR 0x0A) (py_strip stdout)))))
          else Inr 0)"

section \<open>The snapshot and the HTTP handler\<close>

record container_info =
  running :: int

record snapshot =
  timestamp :: string
  system :: system_metrics
  gpus :: "gpu_metric list"
  containers :: container_info

text \<open>The entries of the dictionary are evaluated in the order written.\<close>

definition collect_metrics :: "host \<Rightarrow> py_exc + snapshot" where
  "collect_metrics h =
     bind_exc (get_system_metrics h) (\<lambda>sys.
     bind_exc (get_gpu_metrics (run_nvidia_smi h)) (\<lambda>gs.
     bind_exc (get_container_count (run_docker_ps h)) (\<lambda>n.
     Inr \<lparr>timestamp = utcnow_isoformat h @ ''Z'', system = sys, gpus = fst gs,
          containers = \<lparr>running = n\<rparr>\<rparr>)))"

text \<open>
  A response: the status given to \<^verbatim>\<open>send_response\<close>, the headers given to
  \<^verbatim>\<open>send_header\<close> in order (the \<^verbatim>\<open>Server\<close> and \<^verbatim>\<open>Date\<close> headers that
  \<^verbatim>\<open>send_response\<close> adds by itself are left out), and what is written to \<^verbatim>\<open>wfile\<close>.
  \<open>Json_dump m\<close> stands for the bytes of \<^verbatim>\<open>json.dumps(m, indent=2)\<close>, and
  \<open>Error_page code\<close> for the HTML page that the library's \<^verbatim>\<open>send_error\<close> renders for a
  status code; neither is empty.
\<close>

datatype body = Bytes string | Json_dump snapshot | Error_page nat

record response =
  status :: nat
  headers :: "(string \<times> string) list"
  content :: body

definition do_GET :: "host \<Rightarrow> string \<Rightarrow> py_exc + response" where
  "do_GET h path =
     (if path = ''/metrics'' \<or> path = ''/'' then
        bind_exc (collect_metrics h) (\<lambda>metrics.
        Inr \<lparr>status = 200,
             headers = [(''Content-Type'', ''application/json''),
                        (''Access-Control-Allow-Origin'', ''*'')],
             content = Json_dump metrics\<rparr>)
      else if path = ''/health'' then
        Inr \<lparr>status = 200, headers = [(''Content-Type'', ''text/plain'')],
             content = Bytes ''OK''\<rparr>
      else
        Inr \<lparr>status = 404, headers = [], content = Bytes ''''\<rparr>)"

text \<open>
  \<^verbatim>\<open>MetricsHandler\<close> defines \<^verbatim>\<open>do_GET\<close> and no other \<^verbatim>\<open>do_\<close> method. Reading the request and
  the dispatch are inherited from \<^verbatim>\<open>BaseHTTPRequestHandler\<close>. For a request line that
  \<^verbatim>\<open>parse_request\<close> accepts, with its command and its target:
  \<^item> \<^verbatim>\<open>parse_request\<close> stores the target in \<^verbatim>\<open>self.path\<close>, and when it starts with two
    slashes replaces it by \<^verbatim>\<open>'/' + self.path.lstrip('/')\<close>, one slash in place of the
    leading run;
  \<^item> \<^verbatim>\<open>handle_one_request\<close> then gives the request to the method \<^verbatim>\<open>do_\<close>\<open>c\<close> for the
    command \<open>c\<close> when the handler has one, and answers it with
    \<^verbatim>\<open>send_error(501, "Unsupported method (...)")\<close> otherwise, whatever the path.
  The error page is not written for \<^verbatim>\<open>HEAD\<close>. The \<^verbatim>\<open>Content-Length\<close> header of the error
  page is left out.
\<close>

definition request_path :: "string \<Rightarrow> string" where
  "request_path target =
     (if take 2 target = ''//'' then CHR ''/'' # dropWhile (\<lambda>c. c = CHR ''/'') target
      else target)"

definition send_error_unsupported :: "string \<Rightarrow> response" where
  "send_error_unsupported command =
     \<lparr>status = 501,
      headers = [(''Connection'', ''close''), (''Content-Type'', ''text/html;charset=utf-8'')],
      content = (if command = ''HEAD'' then Bytes '''' else Error_page 501)\<rparr>"

definition handle_one_request :: "host \<Rightarrow> string \<Rightarrow> string \<Rightarrow> py_exc + response" where
  "handle_one_request h command target =
     (let path = request_path target
      in if command = ''GET'' then do_GET h path else Inr (send_error_unsupported command))"

section \<open>Notions used to state the properties\<close>

text \<open>The lines that the two samplers iterate over when the tool has completed.\<close>

definition output_lines :: "string \<Rightarrow> string list" where
  "output_lines stdout = py_split (CHR 0x0A) (py_strip stdout)"

text \<open>
  A device line is a line that the GPU sampler keeps: not empty, and of at least six
  fields. It parses when building its dictionary raises nothing.
\<close>

definition device_line :: "string \<Rightarrow> bool" where
  "device_line line = (line \<noteq> [] \<and> 6 \<le> length (line_parts line))"


text \<open>
  The memory figures of a metric are consistent when, both being non-zero, the used
  memory does not exceed the total. A device line reports consistent figures when
  its fields 3 and 4, if both are integers, are in that order.
\<close>

definition memory_within :: "gpu_metric \<Rightarrow> bool" where
  "memory_within g =
     (if nonzero (memory_used_gb g) \<and> nonzero (memory_total_gb g)
      then num_le (memory_used_gb g) (memory_total_gb g) else True)"

definition reports_within :: "string \<Rightarrow> bool" where
  "reports_within line =
     (if device_line line
      then (case (py_int (line_parts line ! 3), py_int (line_parts line ! 4)) of
              (Inr u, Inr t) \<Rightarrow> u \<le> t
            | _ \<Rightarrow> True)
      else True)"

text \<open>
  What \<^verbatim>\<open>docker ps -q\<close> prints for a container: an identifier, not empty and free of
  white space, on a line of its own.
\<close>

definition container_id :: "string \<Rightarrow> bool" where
  "container_id i = (i \<noteq> [] \<and> list_all (\<lambda>c. \<not> isspace c) i)"

definition id_lines :: "string list \<Rightarrow> string" where
  "id_lines ids = concat (map (\<lambda>i. i @ [CHR 0x0A]) ids)"

section \<open>Example hosts\<close>

text \<open>A host on which both tools are missing and the system queries answer.\<close>

definition bare_host :: host where
  "bare_host =
     \<lparr>utcnow_isoformat = ''2024-01-01T00:00:00'',
      cpu_percent_query = Inr (25 / 2),
      virtual_memory = Inr \<lparr>used = 4 * 1024 ^ 3, total = 16 * 1024 ^ 3\<rparr>,
      disk_usage_root = Inr \<lparr>used = 100 * 1024 ^ 3, total = 500 * 1024 ^ 3\<rparr>,
      run_nvidia_smi = Raised FileNotFoundError,
      run_docker_ps = Raised FileNotFoundError\<rparr>"

text \<open>The same host with one GPU, reporting the line of the specification's scenario.\<close>

definition tesla_host :: host where
  "tesla_host = bare_host\<lparr>run_nvidia_smi :=
     Completed 0 (''0, Tesla T4, 45, 2048, 16384, 60'' @ [CHR 0x0A])\<rparr>"

text \<open>The same host with a tool that reports more memory used than there is.\<close>

definition overcommitted_host :: host where
  "overcommitted_host = bare_host\<lparr>run_nvidia_smi :=
     Completed 0 (''0, Tesla T4, 45, 16384, 2048, 60'' @ [CHR 0x0A])\<rparr>"


text \<open>A host on which every query and both tools fail.\<close>

definition failing_host :: host where
  "failing_host =
     \<lparr>utcnow_isoformat = ''2024-01-01T00:00:00'',
      cpu_percent_query = Inl OSError,
      virtual_memory = Inl OSError,
      disk_usage_root = Inl OSError,
      run_nvidia_smi = Raised FileNotFoundError,
      run_docker_ps = Raised TimeoutExpired\<rparr>"


section \<open>The example hosts, evaluated\<close>

lemma floor_25_2: "\<lfloor>25 / 2 :: rat\<rfloor> = 12"
  by (rule floor_unique) simp_all

lemma py_round_25_2: "py_round (25 / 2) = 12"
  by (simp add: py_round_def floor_25_2)

lemma bare_snapshot:
  "collect_metrics bare_host =
     Inr \<lparr>timestamp = ''2024-01-01T00:00:00Z'',
          system = \<lparr>cpu_percent = 12, ram_used_gb = Float_tenths 40,
                    ram_total_gb = Float_tenths 160, disk_used_gb = Float_tenths 1000,
                    disk_total_gb = Float_tenths 5000\<rparr>,
          gpus = [], containers = \<lparr>running = 0\<rparr>\<rparr>"
  by (simp add: collect_metrics_def get_system_metrics_def get_gpu_metrics_def
      get_container_count_def bare_host_def py_round_25_2 bind_exc_def round1_quot_def
      rn53_def rhe_div_def)

section \<open>The HTTP routes\<close>

lemma request_path_single_slash: "take 2 target \<noteq> ''//'' \<Longrightarrow> request_path target = target"
  by (simp add: request_path_def)

lemma do_GET_not_found_iff:
  "do_GET h path = Inr \<lparr>status = 404, headers = [], content = Bytes ''''\<rparr> \<longleftrightarrow>
     path \<noteq> ''/'' \<and> path \<noteq> ''/metrics'' \<and> path \<noteq> ''/health''"
  by (auto simp add: do_GET_def bind_exc_def split: sum.splits)

text \<open>
  Claim C9. Every \<^verbatim>\<open>GET /health\<close> is answered with status 200, the header
  \<^verbatim>\<open>Content-Type: text/plain\<close> and the body \<^verbatim>\<open>OK\<close>, whatever the host's samplers and
  tools would answer: the route does not consult them.
\<close>

theorem health_always_ok:
  "handle_one_request h ''GET'' ''/health'' =
     Inr \<lparr>status = 200, headers = [(''Content-Type'', ''text/plain'')],
          content = Bytes ''OK''\<rparr>"
  by (simp add: handle_one_request_def request_path_def do_GET_def)

theorem health_always_ok_witness:
  "handle_one_request failing_host ''GET'' ''/health'' =
     Inr \<lparr>status = 200, headers = [(''Content-Type'', ''text/plain'')],
          content = Bytes ''OK''\<rparr>"
  using health_always_ok [of failing_host] by simp

text \<open>
  Claim C10, as stated, has the raw request target compared, so that any trailing slash
  misses the routes. What \<^verbatim>\<open>do_GET\<close> compares is \<^verbatim>\<open>self.path\<close>, in which the inherited
  parser has replaced a leading run of slashes by one: the target \<^verbatim>\<open>//\<close>, which is \<^verbatim>\<open>/\<close>
  with a trailing slash, is answered with a snapshot, and \<^verbatim>\<open>//health\<close> with \<^verbatim>\<open>OK\<close>.
\<close>

theorem double_slash_reaches_routes:
  "handle_one_request bare_host ''GET'' ''//'' =
     Inr \<lparr>status = 200,
          headers = [(''Content-Type'', ''application/json''),
                     (''Access-Control-Allow-Origin'', ''*'')],
          content = Json_dump
            \<lparr>timestamp = ''2024-01-01T00:00:00Z'',
             system = \<lparr>cpu_percent = 12, ram_used_gb = Float_tenths 40,
                       ram_total_gb = Float_tenths 160, disk_used_gb = Float_tenths 1000,
                       disk_total_gb = Float_tenths 5000\<rparr>,
             gpus = [], containers = \<lparr>running = 0\<rparr>\<rparr>\<rparr>
   \<and> handle_one_request bare_host ''GET'' ''//health'' =
     Inr \<lparr>status = 200, headers = [(''Content-Type'', ''text/plain'')],
          content = Bytes ''OK''\<rparr>"
  by (simp add: handle_one_request_def request_path_def do_GET_def bare_snapshot bind_exc_def)

text \<open>
  Claim C10, amended. The routes compare \<^verbatim>\<open>self.path\<close> for equality, and \<^verbatim>\<open>self.path\<close> is the
  raw request target unless that starts with two slashes, when it is the target with
  its leading run of slashes replaced by one. A \<^verbatim>\<open>GET\<close> is answered with 404 and an empty
  body exactly when \<^verbatim>\<open>self.path\<close> is none of \<^verbatim>\<open>/\<close>, \<^verbatim>\<open>/metrics\<close> and \<^verbatim>\<open>/health\<close>. So a
  target that carries a query string or a trailing slash after \<^verbatim>\<open>/metrics\<close> or
  \<^verbatim>\<open>/health\<close>, or a query string after \<^verbatim>\<open>/\<close>, matches no route: it is answered with 404,
  not with a snapshot.
\<close>

theorem route_match_is_exact:
  "(handle_one_request h ''GET'' target = Inr \<lparr>status = 404, headers = [], content = Bytes ''''\<rparr> \<longleftrightarrow>
      request_path target \<noteq> ''/'' \<and> request_path target \<noteq> ''/metrics''
      \<and> request_path target \<noteq> ''/health'')
   \<and> (take 2 target \<noteq> ''//'' \<longrightarrow> request_path target = target)
   \<and> (take 2 target = ''//'' \<longrightarrow>
        request_path target = CHR ''/'' # dropWhile (\<lambda>c. c = CHR ''/'') target)
   \<and> handle_one_request h ''GET'' (''/metrics?'' @ q) =
     Inr \<lparr>status = 404, headers = [], content = Bytes ''''\<rparr>
   \<and> handle_one_request h ''GET'' (''/metrics/'' @ q) =
     Inr \<lparr>status = 404, headers = [], content = Bytes ''''\<rparr>
   \<and> handle_one_request h ''GET'' (''/health?'' @ q) =
     Inr \<lparr>status = 404, headers = [], content = Bytes ''''\<rparr>
   \<and> handle_one_request h ''GET'' (''/health/'' @ q) =
     Inr \<lparr>status = 404, headers = [], content = Bytes ''''\<rparr>
   \<and> handle_one_request h ''GET'' (''/?'' @ q) =
     Inr \<lparr>status = 404, headers = [], content = Bytes ''''\<rparr>"
proof (intro conjI)
  show "handle_one_request h ''GET'' target = Inr \<lparr>status = 404, headers = [], content = Bytes ''''\<rparr> \<longleftrightarrow>
      request_path target \<noteq> ''/'' \<and> request_path target \<noteq> ''/metrics''
      \<and> request_path target \<noteq> ''/health''"
    by (simp add: handle_one_request_def do_GET_not_found_iff)
qed (simp_all add: handle_one_request_def request_path_def do_GET_def)

theorem route_match_is_exact_witness:
  "handle_one_request bare_host ''GET'' ''/metrics?x=1'' =
     Inr \<lparr>status = 404, headers = [], content = Bytes ''''\<rparr>
   \<and> handle_one_request bare_host ''GET'' ''/metrics/'' =
     Inr \<lparr>status = 404, headers = [], content = Bytes ''''\<rparr>
   \<and> request_path ''/metrics/'' = ''/metrics/''
   \<and> request_path ''///metrics'' = ''/metrics''
   \<and> handle_one_request bare_host ''GET'' ''///metrics'' \<noteq>
     Inr \<lparr>status = 404, headers = [], content = Bytes ''''\<rparr>"
  using route_match_is_exact [of bare_host "''/metrics/''" "''x=1''"]
    route_match_is_exact [of bare_host "''///metrics''" "''''"]
  by simp

text \<open>
  Claim C2, as stated, promises 404 with an empty body for every method. The handler
  defines \<^verbatim>\<open>do_GET\<close> only, so a request with another method never reaches the routes: the
  inherited dispatch answers it with 501 and an error page.
\<close>

theorem post_unknown_is_501:
  "handle_one_request bare_host ''POST'' ''/unknown'' =
     Inr \<lparr>status = 501,
          headers = [(''Connection'', ''close''),
                     (''Content-Type'', ''text/html;charset=utf-8'')],
          content = Error_page 501\<rparr>"
  by (simp add: handle_one_request_def send_error_unsupported_def)

text \<open>
  Claim C2, amended. Every \<^verbatim>\<open>GET\<close> whose path is none of \<^verbatim>\<open>/\<close>, \<^verbatim>\<open>/metrics\<close> and
  \<^verbatim>\<open>/health\<close> is answered with status 404 and an empty body, the path being \<^verbatim>\<open>self.path\<close>:
  the request target, with a leading run of two or more slashes replaced by one. In
  particular that holds for every target that does not start with two slashes and is
  none of the three. A request with any other method is answered with status 501,
  whatever its path.
\<close>

theorem get_unknown_path_404:
  "(request_path target \<noteq> ''/'' \<and> request_path target \<noteq> ''/metrics''
      \<and> request_path target \<noteq> ''/health'' \<longrightarrow>
      handle_one_request h ''GET'' target =
        Inr \<lparr>status = 404, headers = [], content = Bytes ''''\<rparr>)
   \<and> (take 2 target \<noteq> ''//'' \<and> target \<noteq> ''/'' \<and> target \<noteq> ''/metrics''
      \<and> target \<noteq> ''/health'' \<longrightarrow>
      handle_one_request h ''GET'' target =
        Inr \<lparr>status = 404, headers = [], content = Bytes ''''\<rparr>)
   \<and> (command \<noteq> ''GET'' \<longrightarrow>
      (\<exists>r. handle_one_request h command target = Inr r \<and> status r = 501))"
  by (simp add: handle_one_request_def request_path_def do_GET_def send_error_unsupported_def)

theorem get_unknown_path_404_witness:
  "request_path ''//unknown'' = ''/unknown''
   \<and> handle_one_request failing_host ''GET'' ''//unknown'' =
     Inr \<lparr>status = 404, headers = [], content = Bytes ''''\<rparr>
   \<and> handle_one_request failing_host ''GET'' ''/unknown'' =
     Inr \<lparr>status = 404, headers = [], content = Bytes ''''\<rparr>
   \<and> (\<exists>r. handle_one_request failing_host ''DELETE'' ''/unknown'' = Inr r \<and> status r = 501)"
  using get_unknown_path_404 [of "''//unknown''" failing_host "''DELETE''"]
    get_unknown_path_404 [of "''/unknown''" failing_host "''DELETE''"]
  by (simp add: request_path_def)

section \<open>Failure of a sampler\<close>





text \<open>
  Claim C6. When running the device-query tool raises an \<^verbatim>\<open>Exception\<close> (the tool is not
  found, the timeout expires, or any other error of the invocation) or the tool exits
  with a non-zero code, \<^verbatim>\<open>get_gpu_metrics\<close> returns the empty list and raises nothing.
\<close>

theorem gpu_sampler_tolerates_failure:
  "(is_Exception e \<longrightarrow> get_gpu_metrics (Raised e) = Inr ([], Some e))
   \<and> (returncode \<noteq> 0 \<longrightarrow> get_gpu_metrics (Completed returncode stdout) = Inr ([], None))
   \<and> get_gpu_metrics (Raised FileNotFoundError) = Inr ([], Some FileNotFoundError)
   \<and> get_gpu_metrics (Raised TimeoutExpired) = Inr ([], Some TimeoutExpired)"
  by (simp add: get_gpu_metrics_def)

theorem gpu_sampler_tolerates_failure_witness:
  "get_gpu_metrics (Raised (Other_Exception ''PermissionError'')) =
     Inr ([], Some (Other_Exception ''PermissionError''))
   \<and> get_gpu_metrics (Completed 9 ''0, Tesla T4, 45, 2048, 16384, 60'') = Inr ([], None)"
  using gpu_sampler_tolerates_failure
    [of "Other_Exception ''PermissionError''" 9 "''0, Tesla T4, 45, 2048, 16384, 60''"]
  by simp

section \<open>Rounding\<close>

text \<open>
  \<open>rhe_div\<close> picks one of the two integers around the quotient, the nearer one, and is
  monotone; \<open>rn53\<close> is monotone, and so is \<^verbatim>\<open>round(n / d, 1)\<close> in \<open>n\<close>.
\<close>

lemma rhe_div_cases:
  assumes "0 < b"
  shows "(rhe_div a b = a div b \<and> 2 * (a mod b) \<le> b) \<or> (rhe_div a b = a div b + 1 \<and> b \<le> 2 * (a mod b))"
  unfolding rhe_div_def Let_def by auto

lemma rhe_div_lower: "0 < b \<Longrightarrow> a div b \<le> rhe_div a b"
  using rhe_div_cases [of b a] by auto

lemma rhe_div_upper: "0 < b \<Longrightarrow> rhe_div a b \<le> a div b + 1"
  using rhe_div_cases [of b a] by auto

lemma rhe_div_mono:
  assumes "0 < b" and "a \<le> a'"
  shows "rhe_div a b \<le> rhe_div a' b"
proof (cases "a div b = a' div b")
  case True
  have "a = b * (a div b) + a mod b" "a' = b * (a' div b) + a' mod b" by simp_all
  with True assms(2) have "a mod b \<le> a' mod b"
    by (metis add_le_cancel_left)
  with True show ?thesis
    unfolding rhe_div_def Let_def by auto
next
  case False
  moreover have "a div b \<le> a' div b" using assms by (simp add: zdiv_mono1)
  ultimately have "a div b + 1 \<le> a' div b" by simp
  with rhe_div_upper [OF assms(1), of a] rhe_div_lower [OF assms(1), of a']
  show ?thesis by simp
qed

lemma mult_le_div: "0 < (d::int) \<Longrightarrow> x * d \<le> n \<Longrightarrow> x \<le> n div d"
  using zdiv_mono1 by fastforce

lemma div_less_mult:
  assumes "0 < (d::int)" and "n < x * d"
  shows "n div d < x"
proof (rule ccontr)
  assume "\<not> n div d < x"
  then have "x * d \<le> n div d * d" using assms(1) by (simp add: mult_right_mono)
  also have "\<dots> \<le> n"
    using assms(1) by (metis div_mult_mod_eq le_add_same_cancel1 pos_mod_sign)
  finally show False using assms(2) by simp
qed

lemma rn53_big: "2 ^ 53 \<le> n \<Longrightarrow>
    rn53 n = rhe_div n (2 ^ (nat (bitlen n) - 53)) * 2 ^ (nat (bitlen n) - 53)"
  by (simp add: rn53_def)

lemma bitlen_big: "(2::int) ^ 53 \<le> n \<Longrightarrow> 54 \<le> nat (bitlen n)"
  using bitlen_ge_iff_power [of 54 n] by simp

lemma rn53_bounds:
  assumes "2 ^ 53 \<le> n"
  shows "2 ^ (nat (bitlen n) - 1) \<le> rn53 n" and "rn53 n \<le> 2 ^ nat (bitlen n)"
proof -
  define k where "k = nat (bitlen n)"
  define e where "e = k - 53"
  have k: "54 \<le> k" using bitlen_big [OF assms] by (simp add: k_def)
  have "0 < n" using assms by (smt (verit) zero_less_power)
  from bitlen_bounds [OF this] have lo: "2 ^ (k - 1) \<le> n" and hi: "n < 2 ^ k"
    using k by (simp_all add: k_def nat_diff_distrib)
  have "k - 1 = 52 + e" and "k = 53 + e" using k by (simp_all add: e_def)
  then have "(2::int) ^ (k - 1) = 2 ^ (52 + e)" and "(2::int) ^ k = 2 ^ (53 + e)" by simp_all
  then have p1: "(2::int) ^ (k - 1) = 2 ^ 52 * 2 ^ e" and p2: "(2::int) ^ k = 2 ^ 53 * 2 ^ e"
    by (simp_all only: power_add)
  have pos: "(0::int) < 2 ^ e" by simp
  have "2 ^ 52 \<le> n div 2 ^ e" using lo p1 mult_le_div [OF pos] by simp
  then have "2 ^ 52 \<le> rhe_div n (2 ^ e)" using rhe_div_lower [OF pos, of n] by simp
  then have "2 ^ 52 * 2 ^ e \<le> rhe_div n (2 ^ e) * 2 ^ e" by (simp add: mult_right_mono)
  then show "2 ^ (nat (bitlen n) - 1) \<le> rn53 n"
    using p1 rn53_big [OF assms] by (simp add: k_def e_def)
  have "n div 2 ^ e < 2 ^ 53" using hi p2 div_less_mult [OF pos] by simp
  then have "rhe_div n (2 ^ e) \<le> 2 ^ 53" using rhe_div_upper [OF pos, of n] by simp
  then have "rhe_div n (2 ^ e) * 2 ^ e \<le> 2 ^ 53 * 2 ^ e" by (simp add: mult_right_mono)
  then show "rn53 n \<le> 2 ^ nat (bitlen n)"
    using p2 rn53_big [OF assms] by (simp add: k_def e_def)
qed

lemma rn53_mono_nonneg:
  assumes "0 \<le> m" and "m \<le> n"
  shows "rn53 m \<le> rn53 n"
proof -
  consider "n < 2 ^ 53" | "m < 2 ^ 53" "2 ^ 53 \<le> n" | "2 ^ 53 \<le> m" by linarith
  then show ?thesis
  proof cases
    case 1
    then show ?thesis using assms by (simp add: rn53_def)
  next
    case 2
    have "(2::int) ^ 53 \<le> 2 ^ (nat (bitlen n) - 1)"
      using bitlen_big [OF 2(2)] by (intro power_increasing) simp_all
    with rn53_bounds(1) [OF 2(2)] 2(1) assms(1) show ?thesis by (simp add: rn53_def)
  next
    case 3
    then have n: "2 ^ 53 \<le> n" using assms(2) by simp
    have le: "nat (bitlen m) \<le> nat (bitlen n)"
      using assms by (simp add: bitlen_def floorlog_mono)
    show ?thesis
    proof (cases "nat (bitlen m) = nat (bitlen n)")
      case True
      have "rhe_div m (2 ^ (nat (bitlen n) - 53)) \<le> rhe_div n (2 ^ (nat (bitlen n) - 53))"
        using assms(2) by (intro rhe_div_mono) simp_all
      then show ?thesis
        using True rn53_big [OF 3] rn53_big [OF n] by (simp add: mult_right_mono)
    next
      case False
      with le have "nat (bitlen m) \<le> nat (bitlen n) - 1" by simp
      then have "(2::int) ^ nat (bitlen m) \<le> 2 ^ (nat (bitlen n) - 1)"
        by (intro power_increasing) simp_all
      with rn53_bounds(2) [OF 3] rn53_bounds(1) [OF n] show ?thesis by linarith
    qed
  qed
qed

lemma rn53_minus: "rn53 (- n) = - rn53 n"
  by (simp add: rn53_def)

lemma rn53_nonneg: "0 \<le> n \<Longrightarrow> 0 \<le> rn53 n"
  using rn53_mono_nonneg [of 0 n] by (simp add: rn53_def)

lemma rn53_mono:
  assumes "m \<le> n"
  shows "rn53 m \<le> rn53 n"
proof -
  consider "0 \<le> m" | "m < 0" "0 \<le> n" | "n < 0" by linarith
  then show ?thesis
  proof cases
    case 1
    then show ?thesis using assms by (rule rn53_mono_nonneg)
  next
    case 2
    from 2(1) have "0 \<le> rn53 (- m)" by (intro rn53_nonneg) simp
    with rn53_nonneg [OF 2(2)] show ?thesis by (simp add: rn53_minus)
  next
    case 3
    then have "rn53 (- n) \<le> rn53 (- m)" using assms by (intro rn53_mono_nonneg) simp_all
    then show ?thesis by (simp add: rn53_minus)
  qed
qed

lemma round1_quot_mono:
  assumes "round1_quot m d = Inr a" and "round1_quot n d = Inr b" and "0 < d" and "m \<le> n"
  shows "num_le a b"
proof -
  have "rhe_div (10 * rn53 m) d \<le> rhe_div (10 * rn53 n) d"
    using rn53_mono [OF assms(4)] assms(3) by (intro rhe_div_mono) simp_all
  with assms(1,2) show ?thesis
    by (auto simp add: round1_quot_def num_le_def split: if_splits)
qed

lemma rhe_div_near:
  assumes "0 < b"
  shows "\<bar>2 * (a - b * rhe_div a b)\<bar> \<le> b"
proof -
  define q r where "q = a div b" and "r = a mod b"
  have eq: "a = b * q + r" by (simp add: q_def r_def)
  have r: "0 \<le> r" "r < b" using assms by (simp_all add: r_def)
  have down: "a - b * q = r" using eq by simp
  have up: "a - b * (q + 1) = r - b" using eq by (simp add: algebra_simps)
  from rhe_div_cases [OF assms, of a]
  consider "rhe_div a b = q" "2 * r \<le> b" | "rhe_div a b = q + 1" "b \<le> 2 * r"
    unfolding q_def r_def by blast
  then show ?thesis
  proof cases
    case 1
    then show ?thesis using down r by simp
  next
    case 2
    then show ?thesis using up r by simp
  qed
qed

section \<open>The GPU sampler on one line\<close>

lemmas sampler_defs =
  get_gpu_metrics_def py_strip_def isspace_def line_parts_def gpu_entry_def bind_exc_def
  py_int_def int_space_def valid_literal_def digits_of_def digit_val_def is_digit_def
  int_max_str_digits_def round1_quot_def rn53_def rhe_div_def na_def

lemma py_int_na: "py_int na = Inl ValueError"
  by (simp add: py_int_def int_space_def valid_literal_def digit_val_def is_digit_def na_def)

lemma gpu_entry_memory:
  assumes "gpu_entry parts = Inr g"
  shows "memory_used_gb g =
           (if parts ! 3 \<noteq> na then projr (round1_quot (projr (py_int (parts ! 3))) 1024)
            else Int_val 0)"
    and "memory_total_gb g =
           (if parts ! 4 \<noteq> na then projr (round1_quot (projr (py_int (parts ! 4))) 1024)
            else Int_val 0)"
    and "parts ! 3 \<noteq> na \<Longrightarrow>
           \<exists>n a. py_int (parts ! 3) = Inr n \<and> round1_quot n 1024 = Inr a"
    and "parts ! 4 \<noteq> na \<Longrightarrow>
           \<exists>n a. py_int (parts ! 4) = Inr n \<and> round1_quot n 1024 = Inr a"
  using assms unfolding gpu_entry_def
  by (auto simp add: bind_exc_def split: sum.splits if_splits)

text \<open>
  Claim C4. The line \<^verbatim>\<open>0, Tesla T4, 45, 2048, 16384, 60\<close>, with or without its newline,
  yields the one metric of the scenario: 2048 MiB become 2.0 and 16384 MiB become 16.0.
  In general a memory field that is an integer \<open>n\<close> (below \<open>2 ^ 53\<close> in magnitude, so
  that \<open>n / 1024\<close> is exact) becomes the float of \<open>t\<close> tenths nearest to \<open>n / 1024\<close>:
  \<open>t / 10\<close> and \<open>n / 1024\<close> differ by at most \<open>1 / 20\<close>.
\<close>

theorem tesla_t4_line:
  "get_gpu_metrics (Completed 0 ''0, Tesla T4, 45, 2048, 16384, 60'') =
     Inr ([\<lparr>index = 0, name = ''Tesla T4'', utilization_percent = 45,
            memory_used_gb = Float_tenths 20, memory_total_gb = Float_tenths 160,
            temperature_c = 60\<rparr>], None)
   \<and> get_gpu_metrics (Completed 0 (''0, Tesla T4, 45, 2048, 16384, 60'' @ [CHR 0x0A])) =
     Inr ([\<lparr>index = 0, name = ''Tesla T4'', utilization_percent = 45,
            memory_used_gb = Float_tenths 20, memory_total_gb = Float_tenths 160,
            temperature_c = 60\<rparr>], None)
   \<and> (gpu_entry parts = Inr g \<and> py_int (parts ! 3) = Inr u \<and> py_int (parts ! 4) = Inr t
        \<and> \<bar>u\<bar> < 2 ^ 53 \<and> \<bar>t\<bar> < 2 ^ 53 \<longrightarrow>
      (\<exists>a b. memory_used_gb g = Float_tenths a \<and> \<bar>10 * u - 1024 * a\<bar> \<le> 512
           \<and> memory_total_gb g = Float_tenths b \<and> \<bar>10 * t - 1024 * b\<bar> \<le> 512))"
proof (intro conjI impI)
  show "get_gpu_metrics (Completed 0 ''0, Tesla T4, 45, 2048, 16384, 60'') =
     Inr ([\<lparr>index = 0, name = ''Tesla T4'', utilization_percent = 45,
            memory_used_gb = Float_tenths 20, memory_total_gb = Float_tenths 160,
            temperature_c = 60\<rparr>], None)"
    by (simp add: sampler_defs)
  show "get_gpu_metrics (Completed 0 (''0, Tesla T4, 45, 2048, 16384, 60'' @ [CHR 0x0A])) =
     Inr ([\<lparr>index = 0, name = ''Tesla T4'', utilization_percent = 45,
            memory_used_gb = Float_tenths 20, memory_total_gb = Float_tenths 160,
            temperature_c = 60\<rparr>], None)"
    by (simp add: sampler_defs)
next
  assume h: "gpu_entry parts = Inr g \<and> py_int (parts ! 3) = Inr u \<and> py_int (parts ! 4) = Inr t
        \<and> \<bar>u\<bar> < 2 ^ 53 \<and> \<bar>t\<bar> < 2 ^ 53"
  then have "parts ! 3 \<noteq> na" and "parts ! 4 \<noteq> na" using py_int_na by auto
  with h gpu_entry_memory(1,2) [of parts g]
  have "memory_used_gb g = Float_tenths (rhe_div (10 * u) 1024)"
    and "memory_total_gb g = Float_tenths (rhe_div (10 * t) 1024)"
    by (simp_all add: round1_quot_def rn53_def)
  moreover have "\<bar>10 * u - 1024 * rhe_div (10 * u) 1024\<bar> \<le> 512"
    using rhe_div_near [of 1024 "10 * u"] by simp
  moreover have "\<bar>10 * t - 1024 * rhe_div (10 * t) 1024\<bar> \<le> 512"
    using rhe_div_near [of 1024 "10 * t"] by simp
  ultimately show "\<exists>a b. memory_used_gb g = Float_tenths a \<and> \<bar>10 * u - 1024 * a\<bar> \<le> 512
           \<and> memory_total_gb g = Float_tenths b \<and> \<bar>10 * t - 1024 * b\<bar> \<le> 512"
    by blast
qed

lemma gpu_entry_scenario_1000:
  "gpu_entry [''0'', ''Tesla T4'', ''45'', ''1000'', ''16384'', ''60''] =
     Inr \<lparr>index = 0, name = ''Tesla T4'', utilization_percent = 45,
          memory_used_gb = Float_tenths 10, memory_total_gb = Float_tenths 160,
          temperature_c = 60\<rparr>"
  by (simp add: sampler_defs)

lemma py_int_examples:
  "py_int ''0'' = Inr 0" "py_int ''1000'' = Inr 1000" "py_int ''16384'' = Inr 16384"
  "py_int ''x'' = Inl ValueError"
  by (simp_all add: sampler_defs)

theorem tesla_t4_line_witness:
  "gpu_entry [''0'', ''Tesla T4'', ''45'', ''1000'', ''16384'', ''60''] =
     Inr \<lparr>index = 0, name = ''Tesla T4'', utilization_percent = 45,
          memory_used_gb = Float_tenths 10, memory_total_gb = Float_tenths 160,
          temperature_c = 60\<rparr>
   \<and> py_int ''1000'' = Inr 1000 \<and> py_int ''16384'' = Inr 16384
   \<and> \<bar>10 * 1000 - 1024 * (10::int)\<bar> \<le> 512 \<and> \<bar>10 * 16384 - 1024 * (160::int)\<bar> \<le> 512"
  using tesla_t4_line [of "[''0'', ''Tesla T4'', ''45'', ''1000'', ''16384'', ''60'']"
      "\<lparr>index = 0, name = ''Tesla T4'', utilization_percent = 45,
          memory_used_gb = Float_tenths 10, memory_total_gb = Float_tenths 160,
          temperature_c = 60\<rparr>" 1000 16384]
    gpu_entry_scenario_1000 py_int_examples
  by simp

text \<open>
  Claim C3, as stated, lists the index among the fields for which \<^verbatim>\<open>[N/A]\<close> becomes 0.
  The index is converted with \<^verbatim>\<open>int\<close> unconditionally: a line whose index is
  \<^verbatim>\<open>[N/A]\<close> raises \<^verbatim>\<open>ValueError\<close>, and the sampler returns no metric for it.
\<close>

theorem na_index_fails_the_line:
  "get_gpu_metrics (Completed 0 ''[N/A], Tesla T4, 45, 2048, 16384, 60'') =
     Inr ([], Some ValueError)"
  by (simp add: sampler_defs)

text \<open>
  Claim C3, amended. For the four telemetry fields of a kept line (utilization, memory
  used, memory total, temperature) the value \<^verbatim>\<open>[N/A]\<close> becomes 0 and does not fail the
  line: a line whose index is an integer and whose four fields are \<^verbatim>\<open>[N/A]\<close> yields a
  metric with four zeros; in any metric, each of the four fields that was \<^verbatim>\<open>[N/A]\<close> is
  0; and when a line does fail, the exception comes from the index or from a field that
  is not \<^verbatim>\<open>[N/A]\<close>.
\<close>

theorem na_is_zero_in_telemetry_fields:
  "(py_int (parts ! 0) = Inr i \<and> parts ! 2 = na \<and> parts ! 3 = na \<and> parts ! 4 = na
      \<and> parts ! 5 = na \<longrightarrow>
    gpu_entry parts =
      Inr \<lparr>index = i, name = parts ! 1, utilization_percent = 0,
           memory_used_gb = Int_val 0, memory_total_gb = Int_val 0, temperature_c = 0\<rparr>)
   \<and> (gpu_entry parts = Inr g \<longrightarrow>
        (parts ! 2 = na \<longrightarrow> utilization_percent g = 0)
        \<and> (parts ! 3 = na \<longrightarrow> memory_used_gb g = Int_val 0)
        \<and> (parts ! 4 = na \<longrightarrow> memory_total_gb g = Int_val 0)
        \<and> (parts ! 5 = na \<longrightarrow> temperature_c g = 0))
   \<and> (gpu_entry parts = Inl e \<longrightarrow>
        py_int (parts ! 0) = Inl e
        \<or> (parts ! 2 \<noteq> na \<and> py_int (parts ! 2) = Inl e)
        \<or> (parts ! 3 \<noteq> na
            \<and> bind_exc (py_int (parts ! 3)) (\<lambda>n. round1_quot n 1024) = Inl e)
        \<or> (parts ! 4 \<noteq> na
            \<and> bind_exc (py_int (parts ! 4)) (\<lambda>n. round1_quot n 1024) = Inl e)
        \<or> (parts ! 5 \<noteq> na \<and> py_int (parts ! 5) = Inl e))"
proof (intro conjI)
  show "py_int (parts ! 0) = Inr i \<and> parts ! 2 = na \<and> parts ! 3 = na \<and> parts ! 4 = na
      \<and> parts ! 5 = na \<longrightarrow>
    gpu_entry parts =
      Inr \<lparr>index = i, name = parts ! 1, utilization_percent = 0,
           memory_used_gb = Int_val 0, memory_total_gb = Int_val 0, temperature_c = 0\<rparr>"
    by (simp add: gpu_entry_def bind_exc_def)
  show "gpu_entry parts = Inr g \<longrightarrow>
        (parts ! 2 = na \<longrightarrow> utilization_percent g = 0)
        \<and> (parts ! 3 = na \<longrightarrow> memory_used_gb g = Int_val 0)
        \<and> (parts ! 4 = na \<longrightarrow> memory_total_gb g = Int_val 0)
        \<and> (parts ! 5 = na \<longrightarrow> temperature_c g = 0)"
    unfolding gpu_entry_def
    by (auto simp add: bind_exc_def split: sum.splits if_splits)
  show "gpu_entry parts = Inl e \<longrightarrow>
        py_int (parts ! 0) = Inl e
        \<or> (parts ! 2 \<noteq> na \<and> py_int (parts ! 2) = Inl e)
        \<or> (parts ! 3 \<noteq> na
            \<and> bind_exc (py_int (parts ! 3)) (\<lambda>n. round1_quot n 1024) = Inl e)
        \<or> (parts ! 4 \<noteq> na
            \<and> bind_exc (py_int (parts ! 4)) (\<lambda>n. round1_quot n 1024) = Inl e)
        \<or> (parts ! 5 \<noteq> na \<and> py_int (parts ! 5) = Inl e)"
    unfolding gpu_entry_def
    by (auto simp add: bind_exc_def split: sum.splits if_splits)
qed

lemma gpu_entry_all_na:
  "gpu_entry [''0'', ''Tesla T4'', ''[N/A]'', ''[N/A]'', ''[N/A]'', ''[N/A]''] =
     Inr \<lparr>index = 0, name = ''Tesla T4'', utilization_percent = 0,
          memory_used_gb = Int_val 0, memory_total_gb = Int_val 0, temperature_c = 0\<rparr>"
  by (simp add: sampler_defs)

lemma gpu_entry_bad_memory:
  "gpu_entry [''0'', ''Tesla T4'', ''[N/A]'', ''x'', ''[N/A]'', ''[N/A]''] = Inl ValueError"
  by (simp add: sampler_defs)

theorem na_is_zero_in_telemetry_fields_witness:
  "gpu_entry [''0'', ''Tesla T4'', ''[N/A]'', ''[N/A]'', ''[N/A]'', ''[N/A]''] =
     Inr \<lparr>index = 0, name = ''Tesla T4'', utilization_percent = 0,
          memory_used_gb = Int_val 0, memory_total_gb = Int_val 0, temperature_c = 0\<rparr>
   \<and> gpu_entry [''0'', ''Tesla T4'', ''[N/A]'', ''x'', ''[N/A]'', ''[N/A]''] = Inl ValueError
   \<and> py_int ''0'' = Inr 0 \<and> ''x'' \<noteq> na
   \<and> bind_exc (py_int ''x'') (\<lambda>n. round1_quot n 1024) = Inl ValueError"
  using na_is_zero_in_telemetry_fields
      [of "[''0'', ''Tesla T4'', ''[N/A]'', ''[N/A]'', ''[N/A]'', ''[N/A]'']" 0
        "\<lparr>index = 0, name = ''Tesla T4'', utilization_percent = 0,
          memory_used_gb = Int_val 0, memory_total_gb = Int_val 0, temperature_c = 0\<rparr>"
        ValueError]
    na_is_zero_in_telemetry_fields
      [of "[''0'', ''Tesla T4'', ''[N/A]'', ''x'', ''[N/A]'', ''[N/A]'']" 0
        "\<lparr>index = 0, name = ''Tesla T4'', utilization_percent = 0,
          memory_used_gb = Int_val 0, memory_total_gb = Int_val 0, temperature_c = 0\<rparr>"
        ValueError]
    gpu_entry_all_na gpu_entry_bad_memory py_int_examples
  by (simp add: na_def bind_exc_def)

section \<open>The GPU sampler on the whole output\<close>








section \<open>The memory figures of a snapshot\<close>

lemma gpu_entry_within:
  assumes "gpu_entry parts = Inr g"
    and "case (py_int (parts ! 3), py_int (parts ! 4)) of (Inr u, Inr t) \<Rightarrow> u \<le> t | _ \<Rightarrow> True"
  shows "memory_within g"
proof (cases "parts ! 3 = na \<or> parts ! 4 = na")
  case True
  with gpu_entry_memory(1,2) [OF assms(1)] show ?thesis
    by (auto simp add: memory_within_def nonzero_def)
next
  case False
  with gpu_entry_memory(3,4) [OF assms(1)]
  obtain n a m b where n: "py_int (parts ! 3) = Inr n" "round1_quot n 1024 = Inr a"
    and m: "py_int (parts ! 4) = Inr m" "round1_quot m 1024 = Inr b"
    by auto
  with assms(2) have "n \<le> m" by simp
  with n m have "num_le a b" by (intro round1_quot_mono [of n 1024 a m b]) simp_all
  moreover have "memory_used_gb g = a" "memory_total_gb g = b"
    using gpu_entry_memory(1,2) [OF assms(1)] False n m by simp_all
  ultimately show ?thesis by (simp add: memory_within_def)
qed

lemma gpu_loop_within:
  assumes "list_all memory_within acc" and "list_all reports_within lines"
  shows "list_all memory_within (fst (gpu_loop lines acc))"
  using assms
proof (induction lines arbitrary: acc)
  case Nil
  then show ?case by simp
next
  case (Cons line rest)
  show ?case
  proof (cases "device_line line")
    case False
    then show ?thesis using Cons by (auto simp add: device_line_def)
  next
    case True
    show ?thesis
    proof (cases "gpu_entry (line_parts line)")
      case (Inl e)
      then show ?thesis using True Cons.prems(1) by (simp add: device_line_def)
    next
      case (Inr g)
      from Cons.prems(2) True
      have "case (py_int (line_parts line ! 3), py_int (line_parts line ! 4)) of
              (Inr u, Inr t) \<Rightarrow> u \<le> t | _ \<Rightarrow> True"
        by (simp add: reports_within_def)
      with Inr have "memory_within g" by (rule gpu_entry_within)
      with Cons.prems have "list_all memory_within (fst (gpu_loop rest (acc @ [g])))"
        by (intro Cons.IH) simp_all
      with Inr True show ?thesis by (simp add: device_line_def)
    qed
  qed
qed

lemmas host_defs = collect_metrics_def get_system_metrics_def get_container_count_def
  bare_host_def py_round_25_2

text \<open>
  Claim C8, as stated, holds for arbitrary output of the tool. The sampler converts the
  two memory fields independently and never compares them: a line that reports 16384 MiB
  used of 2048 MiB gives a snapshot with 16.0 used of 2.0.
\<close>

theorem overcommitted_line_breaks_order:
  "collect_metrics overcommitted_host =
     Inr \<lparr>timestamp = ''2024-01-01T00:00:00Z'',
          system = \<lparr>cpu_percent = 12, ram_used_gb = Float_tenths 40,
                    ram_total_gb = Float_tenths 160, disk_used_gb = Float_tenths 1000,
                    disk_total_gb = Float_tenths 5000\<rparr>,
          gpus = [\<lparr>index = 0, name = ''Tesla T4'', utilization_percent = 45,
                   memory_used_gb = Float_tenths 160, memory_total_gb = Float_tenths 20,
                   temperature_c = 60\<rparr>],
          containers = \<lparr>running = 0\<rparr>\<rparr>
   \<and> nonzero (Float_tenths 160) \<and> nonzero (Float_tenths 20)
   \<and> \<not> num_le (Float_tenths 160) (Float_tenths 20)"
  by (simp add: overcommitted_host_def host_defs sampler_defs nonzero_def num_le_def)

text \<open>
  Claim C8, amended. When every device line of the tool's output reports a used memory
  that does not exceed the total (where both are integers), every metric of the
  snapshot whose two memory figures are non-zero has \<open>memory_used_gb \<le> memory_total_gb\<close>:
  the conversion to GB is monotone.
\<close>

theorem consistent_reports_stay_consistent:
  assumes "collect_metrics h = Inr s"
    and "case run_nvidia_smi h of
           Completed returncode stdout \<Rightarrow> list_all reports_within (output_lines stdout)
         | Raised e \<Rightarrow> True"
    and "g \<in> set (gpus s)"
    and "nonzero (memory_used_gb g)" and "nonzero (memory_total_gb g)"
  shows "num_le (memory_used_gb g) (memory_total_gb g)"
proof -
  from assms(1) obtain gs where gs: "get_gpu_metrics (run_nvidia_smi h) = Inr gs"
    and s: "gpus s = fst gs"
    by (auto simp add: collect_metrics_def bind_exc_def split: sum.splits)
  have "list_all memory_within (fst gs)"
  proof (cases "run_nvidia_smi h")
    case (Raised e)
    with gs show ?thesis by (auto simp add: get_gpu_metrics_def split: if_splits)
  next
    case (Completed returncode stdout)
    with assms(2) have "list_all reports_within (output_lines stdout)" by simp
    then have "list_all memory_within (fst (gpu_loop (output_lines stdout) []))"
      by (intro gpu_loop_within) simp_all
    with gs Completed show ?thesis
      by (auto simp add: get_gpu_metrics_def output_lines_def split: if_splits)
  qed
  with s assms(3) have "memory_within g" by (simp add: list_all_iff)
  with assms(4,5) show ?thesis by (simp add: memory_within_def)
qed

lemma tesla_snapshot:
  "collect_metrics tesla_host =
     Inr \<lparr>timestamp = ''2024-01-01T00:00:00Z'',
          system = \<lparr>cpu_percent = 12, ram_used_gb = Float_tenths 40,
                    ram_total_gb = Float_tenths 160, disk_used_gb = Float_tenths 1000,
                    disk_total_gb = Float_tenths 5000\<rparr>,
          gpus = [\<lparr>index = 0, name = ''Tesla T4'', utilization_percent = 45,
                   memory_used_gb = Float_tenths 20, memory_total_gb = Float_tenths 160,
                   temperature_c = 60\<rparr>],
          containers = \<lparr>running = 0\<rparr>\<rparr>"
  by (simp add: tesla_host_def host_defs sampler_defs)

lemma tesla_reports_within:
  "list_all reports_within (output_lines (''0, Tesla T4, 45, 2048, 16384, 60'' @ [CHR 0x0A]))"
  by (simp add: output_lines_def reports_within_def device_line_def sampler_defs)

theorem consistent_reports_stay_consistent_witness:
  "collect_metrics tesla_host =
     Inr \<lparr>timestamp = ''2024-01-01T00:00:00Z'',
          system = \<lparr>cpu_percent = 12, ram_used_gb = Float_tenths 40,
                    ram_total_gb = Float_tenths 160, disk_used_gb = Float_tenths 1000,
                    disk_total_gb = Float_tenths 5000\<rparr>,
          gpus = [\<lparr>index = 0, name = ''Tesla T4'', utilization_percent = 45,
                   memory_used_gb = Float_tenths 20, memory_total_gb = Float_tenths 160,
                   temperature_c = 60\<rparr>],
          containers = \<lparr>running = 0\<rparr>\<rparr>
   \<and> list_all reports_within
        (output_lines (''0, Tesla T4, 45, 2048, 16384, 60'' @ [CHR 0x0A]))
   \<and> nonzero (Float_tenths 20) \<and> nonzero (Float_tenths 160)
   \<and> num_le (Float_tenths 20) (Float_tenths 160)"
  using consistent_reports_stay_consistent [OF tesla_snapshot, of
      "\<lparr>index = 0, name = ''Tesla T4'', utilization_percent = 45,
          memory_used_gb = Float_tenths 20, memory_total_gb = Float_tenths 160,
          temperature_c = 60\<rparr>"]
    tesla_snapshot tesla_reports_within
  by (simp add: tesla_host_def nonzero_def)

section \<open>The container counter\<close>

lemma py_split_no_sep: "sep \<notin> set a \<Longrightarrow> py_split sep a = [a]"
  by (induction a) auto

lemma py_split_append:
  "sep \<notin> set a \<Longrightarrow> py_split sep (a @ sep # rest) = a # py_split sep rest"
  by (induction a) auto

lemma py_strip_newline:
  assumes "s \<noteq> []" and "\<not> isspace (hd s)" and "\<not> isspace (last s)"
  shows "py_strip (s @ [CHR 0x0A]) = s"
proof -
  from assms(1,2) have "dropWhile isspace (s @ [CHR 0x0A]) = s @ [CHR 0x0A]"
    by (cases s) simp_all
  moreover have "isspace (CHR 0x0A)" by (simp add: isspace_def)
  moreover from assms(1,3) have "dropWhile isspace (rev s) = rev s"
    by (cases "rev s") (simp_all add: last_rev [symmetric] hd_rev)
  ultimately show ?thesis by (simp add: py_strip_def)
qed

lemma container_id_props:
  assumes "container_id i"
  shows "i \<noteq> []" and "\<not> isspace (hd i)" and "\<not> isspace (last i)"
    and "CHR 0x0A \<notin> set i"
proof -
  from assms show "i \<noteq> []" by (simp add: container_id_def)
  with assms show "\<not> isspace (hd i)" and "\<not> isspace (last i)"
    by (simp_all add: container_id_def list_all_iff)
  have "isspace (CHR 0x0A)" by (simp add: isspace_def)
  with assms show "CHR 0x0A \<notin> set i" by (auto simp add: container_id_def list_all_iff)
qed

lemma split_joined:
  assumes "list_all container_id ids" and "container_id i"
  shows "py_split (CHR 0x0A) (id_lines ids @ i) = ids @ [i]"
  using assms
proof (induction ids)
  case Nil
  then show ?case by (simp add: id_lines_def py_split_no_sep container_id_props(4))
next
  case (Cons j ids)
  then have "CHR 0x0A \<notin> set j" by (simp add: container_id_props(4))
  then have "py_split (CHR 0x0A) (j @ CHR 0x0A # (id_lines ids @ i)) =
      j # py_split (CHR 0x0A) (id_lines ids @ i)"
    by (rule py_split_append)
  with Cons show ?case by (simp add: id_lines_def)
qed

lemma id_lines_snoc: "id_lines (ids @ [i]) = (id_lines ids @ i) @ [CHR 0x0A]"
  by (simp add: id_lines_def)

lemma output_lines_id_lines:
  assumes "list_all container_id ids" and "ids \<noteq> []"
  shows "output_lines (id_lines ids) = ids"
proof -
  from assms(2) obtain js i where ids: "ids = js @ [i]" by (metis rev_exhaust)
  with assms(1) have js: "list_all container_id js" and i: "container_id i" by simp_all
  let ?s = "id_lines js @ i"
  have ne: "?s \<noteq> []" using container_id_props(1) [OF i] by simp
  have "hd ?s = (case js of [] \<Rightarrow> hd i | j # _ \<Rightarrow> hd j)"
    using container_id_props(1) [OF i] js
    by (cases js) (simp_all add: id_lines_def container_id_props(1))
  then have "\<not> isspace (hd ?s)"
    using js i by (cases js) (simp_all add: container_id_props(2))
  moreover have "\<not> isspace (last ?s)"
    using container_id_props(1,3) [OF i] by simp
  ultimately have "py_strip (id_lines ids) = ?s"
    unfolding ids id_lines_snoc using ne by (intro py_strip_newline)
  then show ?thesis using split_joined [OF js i] by (simp add: output_lines_def ids)
qed

lemma count_id_lines:
  assumes "list_all container_id ids"
  shows "get_container_count (Completed 0 (id_lines ids)) = Inr (int (length ids))"
proof (cases "ids = []")
  case True
  then show ?thesis by (simp add: get_container_count_def id_lines_def py_strip_def)
next
  case False
  from assms have "filter (\<lambda>l. l \<noteq> []) ids = ids"
    by (auto simp add: list_all_iff container_id_def intro: filter_True)
  with output_lines_id_lines [OF assms False] show ?thesis
    by (simp add: get_container_count_def output_lines_def)
qed

text \<open>
  Claim C7. When the container-runtime command exits with zero, the counter returns the
  number of non-empty lines of its output (the output as the code reads it, stripped of
  surrounding white space); for the output that the command prints, one identifier per
  line, that is the number of identifiers. When the command exits with another code or
  running it raises anything at all, the counter returns 0. In every case it returns a
  non-negative integer and raises nothing.
\<close>

theorem container_count_total:
  "get_container_count (Completed 0 stdout) =
     Inr (int (length (filter (\<lambda>l. l \<noteq> []) (output_lines stdout))))
   \<and> (list_all container_id ids \<longrightarrow>
        get_container_count (Completed 0 (id_lines ids)) = Inr (int (length ids)))
   \<and> (returncode \<noteq> 0 \<longrightarrow> get_container_count (Completed returncode stdout) = Inr 0)
   \<and> get_container_count (Raised e) = Inr 0
   \<and> (\<exists>n. get_container_count r = Inr n \<and> 0 \<le> n)"
proof -
  have "\<exists>n. get_container_count r = Inr n \<and> 0 \<le> n"
    by (cases r) (simp_all add: get_container_count_def)
  then show ?thesis
    using count_id_lines [of ids] by (simp add: get_container_count_def output_lines_def)
qed

theorem container_count_total_witness:
  "list_all container_id [''3f4e8a1b2c9d'', ''a1b2c3d4e5f6'']
   \<and> get_container_count
        (Completed 0 (''3f4e8a1b2c9d'' @ [CHR 0x0A] @ ''a1b2c3d4e5f6'' @ [CHR 0x0A])) = Inr 2
   \<and> get_container_count (Completed 1 ''3f4e8a1b2c9d'') = Inr 0
   \<and> get_container_count (Raised KeyboardInterrupt) = Inr 0"
  using container_count_total [of "''3f4e8a1b2c9d''" "[''3f4e8a1b2c9d'', ''a1b2c3d4e5f6'']" 1
      KeyboardInterrupt "Raised KeyboardInterrupt"]
  by (simp add: container_id_def isspace_def id_lines_def)

end
